theory Spec2Isabelle
  imports Complex_Main "HOL-Library.AList"
begin

section \<open>Numbers\<close>

text \<open>
  Every numeric field of the server (\<open>x\<close>, \<open>y\<close>, \<open>gold\<close>, \<open>count\<close>, \<open>level\<close>) is a
  JavaScript \<open>number\<close>. The model keeps the four kinds of value such a number has: a finite
  value, the two infinities and NaN. The special values follow IEEE 754 as JavaScript
  applies it (NaN is absorbing, \<open>Infinity * 0\<close> and \<open>Infinity - Infinity\<close> and \<open>0 / 0\<close>
  are NaN, every comparison with NaN is false). A finite value is idealised as a real
  number: rounding and the overflow of a finite result are not part of the model, and
  the sign of a zero is not kept. A zero divisor counts as \<open>+0\<close>: the divisors of this
  program are a square root and an army power times a positive factor, and an army
  power is a sum that starts at \<open>0\<close>, so none of them is \<open>-0\<close>.
\<close>

datatype jsnum = Fin real | PosInf | NegInf | NaN

fun is_zero :: "jsnum \<Rightarrow> bool" where
  "is_zero (Fin a) = (a = 0)"
| "is_zero _ = False"

fun is_neg :: "jsnum \<Rightarrow> bool" where
  "is_neg (Fin a) = (a < 0)"
| "is_neg NegInf = True"
| "is_neg _ = False"

definition inf_of_sign :: "bool \<Rightarrow> jsnum" where
  "inf_of_sign negative = (if negative then NegInf else PosInf)"

fun jneg :: "jsnum \<Rightarrow> jsnum" where
  "jneg (Fin a) = Fin (- a)"
| "jneg PosInf = NegInf"
| "jneg NegInf = PosInf"
| "jneg NaN = NaN"

fun jadd :: "jsnum \<Rightarrow> jsnum \<Rightarrow> jsnum" where
  "jadd NaN _ = NaN"
| "jadd _ NaN = NaN"
| "jadd (Fin a) (Fin b) = Fin (a + b)"
| "jadd PosInf NegInf = NaN"
| "jadd NegInf PosInf = NaN"
| "jadd PosInf _ = PosInf"
| "jadd _ PosInf = PosInf"
| "jadd NegInf _ = NegInf"
| "jadd _ NegInf = NegInf"

definition jsub :: "jsnum \<Rightarrow> jsnum \<Rightarrow> jsnum" where
  "jsub a b = jadd a (jneg b)"

fun jmul :: "jsnum \<Rightarrow> jsnum \<Rightarrow> jsnum" where
  "jmul NaN _ = NaN"
| "jmul _ NaN = NaN"
| "jmul (Fin a) (Fin b) = Fin (a * b)"
| "jmul a b = (if is_zero a \<or> is_zero b then NaN else inf_of_sign (is_neg a \<noteq> is_neg b))"

fun jdiv :: "jsnum \<Rightarrow> jsnum \<Rightarrow> jsnum" where
  "jdiv NaN _ = NaN"
| "jdiv _ NaN = NaN"
| "jdiv (Fin a) (Fin b) =
     (if b \<noteq> 0 then Fin (a / b)
      else if a = 0 then NaN
      else inf_of_sign (a < 0))"
| "jdiv (Fin a) _ = Fin 0"
| "jdiv a (Fin b) = inf_of_sign (is_neg a \<noteq> (b < 0))"
| "jdiv _ _ = NaN"

fun jsqrt :: "jsnum \<Rightarrow> jsnum" where
  "jsqrt (Fin a) = (if a < 0 then NaN else Fin (sqrt a))"
| "jsqrt PosInf = PosInf"
| "jsqrt _ = NaN"

fun jlt :: "jsnum \<Rightarrow> jsnum \<Rightarrow> bool" where
  "jlt NaN _ = False"
| "jlt _ NaN = False"
| "jlt (Fin a) (Fin b) = (a < b)"
| "jlt _ NegInf = False"
| "jlt PosInf _ = False"
| "jlt _ _ = True"

definition jgt :: "jsnum \<Rightarrow> jsnum \<Rightarrow> bool" where
  "jgt a b = jlt b a"

fun jle :: "jsnum \<Rightarrow> jsnum \<Rightarrow> bool" where
  "jle NaN _ = False"
| "jle _ NaN = False"
| "jle (Fin a) (Fin b) = (a \<le> b)"
| "jle NegInf _ = True"
| "jle _ PosInf = True"
| "jle _ _ = False"

text \<open>\<open>Math.min\<close>, \<open>Math.max\<close>, \<open>Math.floor\<close> and \<open>Math.round\<close>: NaN in, NaN out.\<close>

fun Math_min :: "jsnum \<Rightarrow> jsnum \<Rightarrow> jsnum" where
  "Math_min NaN _ = NaN"
| "Math_min _ NaN = NaN"
| "Math_min a b = (if jlt b a then b else a)"

fun Math_max :: "jsnum \<Rightarrow> jsnum \<Rightarrow> jsnum" where
  "Math_max NaN _ = NaN"
| "Math_max _ NaN = NaN"
| "Math_max a b = (if jlt a b then b else a)"

fun Math_floor :: "jsnum \<Rightarrow> jsnum" where
  "Math_floor (Fin a) = Fin (of_int \<lfloor>a\<rfloor>)"
| "Math_floor a = a"

fun Math_round :: "jsnum \<Rightarrow> jsnum" where
  "Math_round (Fin a) = Fin (of_int \<lfloor>a + 1 / 2\<rfloor>)"
| "Math_round a = a"

section \<open>Types\<close>

record Position =
  pos_x :: jsnum
  pos_y :: jsnum

record Unit =
  unit_type :: string
  count :: jsnum
  level :: jsnum

text \<open>
  A connection handle. The server reads one thing of it, \<open>readyState\<close>, and compares it
  with \<open>WebSocket.OPEN\<close>, which is 1; the field holds the value that a handler reads
  while it runs. \<open>sock\<close> tells two connections apart.
\<close>

record WebSocket =
  sock :: nat
  readyState :: nat

definition OPEN :: nat where
  "OPEN = 1"

record Player =
  player_id :: string
  name :: string
  faction :: string
  position :: Position
  gold :: jsnum
  army :: "Unit list"
  color :: string
  ws :: "WebSocket option"

record Territory =
  territory_id :: string
  territory_name :: string
  territory_position :: Position
  owner :: "string option"
  territory_type :: string
  income :: jsnum

text \<open>
  \<open>state.players\<close> is a JavaScript \<open>Map\<close>: it keeps insertion order, \<open>set\<close> on a present
  key replaces the value in place, \<open>size\<close> counts the entries. An association list read
  with \<^const>\<open>map_of\<close> and written with \<^const>\<open>AList.update\<close> and \<^const>\<open>AList.delete\<close> does the
  same. \<open>state.battles\<close> is never read or written and is left out.
\<close>

record GameState =
  players :: "(string \<times> Player) list"
  territories :: "Territory list"
  tick :: nat

section \<open>Game constants\<close>

definition MAP_SIZE :: jsnum where
  "MAP_SIZE = Fin 100"

definition FACTIONS :: "string list" where
  "FACTIONS = [''Swadia'', ''Vaegirs'', ''Khergit'', ''Nord'', ''Rhodok'', ''Sarranid'']"

definition FACTION_COLORS :: "string list" where
  "FACTION_COLORS = [''#3b82f6'', ''#ef4444'', ''#22c55e'', ''#f59e0b'', ''#8b5cf6'', ''#ec4899'']"

record Stats =
  attack :: jsnum
  defense :: jsnum
  speed :: jsnum
  cost :: jsnum

text \<open>
  \<open>UNIT_STATS\<close> is an object literal, and \<open>UNIT_STATS[key]\<close> is a property read: it finds
  the three own properties and, through the prototype chain, the members every object
  inherits from \<open>Object.prototype\<close>. An inherited member is a function (or, for
  \<open>__proto__\<close>, the prototype object): it is truthy, and none of \<open>attack\<close>, \<open>defense\<close>,
  \<open>speed\<close>, \<open>cost\<close> is a property of it, so each reads as \<open>undefined\<close>, which is NaN in the
  arithmetic the server does with it. Any other key reads as \<open>undefined\<close>: \<open>None\<close>.
\<close>

definition object_prototype_keys :: "string list" where
  "object_prototype_keys =
     [''constructor'', ''__defineGetter__'', ''__defineSetter__'', ''hasOwnProperty'',
      ''__lookupGetter__'', ''__lookupSetter__'', ''isPrototypeOf'', ''propertyIsEnumerable'',
      ''toString'', ''valueOf'', ''__proto__'', ''toLocaleString'']"

definition inherited_member :: Stats where
  "inherited_member = \<lparr>attack = NaN, defense = NaN, speed = NaN, cost = NaN\<rparr>"

definition UNIT_STATS :: "string \<Rightarrow> Stats option" where
  "UNIT_STATS key =
     (if key = ''infantry'' then Some \<lparr>attack = Fin 10, defense = Fin 15, speed = Fin 1, cost = Fin 50\<rparr>
      else if key = ''archer'' then Some \<lparr>attack = Fin 15, defense = Fin 5, speed = Fin 1, cost = Fin 75\<rparr>
      else if key = ''cavalry'' then Some \<lparr>attack = Fin 20, defense = Fin 10, speed = Fin 2, cost = Fin 150\<rparr>
      else if key \<in> set object_prototype_keys then Some inherited_member
      else None)"

section \<open>Messages and delivery\<close>

record BattleOutcome =
  winner :: string
  loser :: string
  attackPower :: jsnum
  defensePower :: jsnum
  loot :: jsnum

text \<open>
  An outbound message before \<open>JSON.stringify\<close>. A player record inside a message has the
  type of the server's own player records, so that a connection handle in it can be
  told from its absence.
\<close>

datatype message =
  Init string Player "Player list" "Territory list"
| PlayerJoined Player
| PlayerLeft string
| PlayerMoved string Position
| TickMsg "Player list"
| Recruited Player
| GoldUpdate jsnum
| ChatMsg string string string string
| BattleResult BattleOutcome string
| BattleOccurred string string string
| ErrorMsg string

type_synonym outbox = "(WebSocket \<times> message) list"

definition sanitizePlayer :: "Player \<Rightarrow> Player" where
  "sanitizePlayer player = player\<lparr>ws := None\<rparr>"

definition send :: "WebSocket \<Rightarrow> message \<Rightarrow> outbox" where
  "send w data = (if readyState w = OPEN then [(w, data)] else [])"

text \<open>
  \<open>send(player.ws!, data)\<close>: the \<open>!\<close> is erased by the compiler, and \<open>send\<close> reads
  \<open>readyState\<close> of its argument, so an absent handle is a TypeError: \<open>None\<close>.
\<close>

definition send_bang :: "WebSocket option \<Rightarrow> message \<Rightarrow> outbox option" where
  "send_bang w data = (case w of None \<Rightarrow> None | Some s \<Rightarrow> Some (send s data))"

definition broadcast :: "GameState \<Rightarrow> message \<Rightarrow> string option \<Rightarrow> outbox" where
  "broadcast st data excludeId =
     concat (map (\<lambda>(k, player).
        (case ws player of
           Some w \<Rightarrow> if Some k \<noteq> excludeId then send w data else []
         | None \<Rightarrow> []))
       (players st))"

text \<open>
  What a handler leaves behind: the state, the messages handed to the sockets in order,
  and whether it ended by an exception (the mutations and messages before the throw
  stand).
\<close>

record Outcome =
  new_state :: GameState
  sent :: outbox
  threw :: bool

definition done_with :: "GameState \<Rightarrow> outbox \<Rightarrow> Outcome" where
  "done_with st out = \<lparr>new_state = st, sent = out, threw = False\<rparr>"

definition thrown_with :: "GameState \<Rightarrow> outbox \<Rightarrow> Outcome" where
  "thrown_with st out = \<lparr>new_state = st, sent = out, threw = True\<rparr>"

section \<open>Game logic\<close>

definition getArmySpeed :: "Unit list \<Rightarrow> jsnum" where
  "getArmySpeed a =
     (if length a = 0 then Fin 2
      else if (\<exists>u \<in> set a. unit_type u = ''cavalry'' \<and> jgt (count u) (Fin 0)) then Fin 2
      else Fin 1)"

text \<open>
  \<open>army.reduce(..., 0)\<close>, with its accumulator. A stack whose type is no property of
  \<open>UNIT_STATS\<close> makes \<open>stats\<close> undefined, and \<open>stats.attack\<close> a TypeError: \<open>None\<close>.
\<close>

fun getArmyPower_from :: "jsnum \<Rightarrow> Unit list \<Rightarrow> jsnum option" where
  "getArmyPower_from acc [] = Some acc"
| "getArmyPower_from acc (u # us) =
     (case UNIT_STATS (unit_type u) of
        None \<Rightarrow> None
      | Some stats \<Rightarrow>
          getArmyPower_from
            (jadd acc (jmul (jmul (jadd (attack stats) (defense stats)) (count u)) (level u))) us)"

definition getArmyPower :: "Unit list \<Rightarrow> jsnum option" where
  "getArmyPower a = getArmyPower_from (Fin 0) a"

section \<open>Message handlers\<close>

definition clamp_to_map :: "jsnum \<Rightarrow> jsnum" where
  "clamp_to_map v = Math_max (Fin 0) (Math_min MAP_SIZE v)"

text \<open>
  The target of a move after the speed check: \<open>message.x\<close> and \<open>message.y\<close> as they stand
  when the clamp reads them.
\<close>

definition limit_movement :: "Player \<Rightarrow> jsnum \<Rightarrow> jsnum \<Rightarrow> jsnum \<times> jsnum" where
  "limit_movement player mx my =
     (let dx = jsub mx (pos_x (position player));
          dy = jsub my (pos_y (position player));
          distance = jsqrt (jadd (jmul dx dx) (jmul dy dy));
          maxSpeed = getArmySpeed (army player)
      in if jgt distance (jmul maxSpeed (Fin 5))
         then (let ratio = jdiv (jmul maxSpeed (Fin 5)) distance
               in (jadd (pos_x (position player)) (jmul dx ratio),
                   jadd (pos_y (position player)) (jmul dy ratio)))
         else (mx, my))"

definition handleMove :: "string \<Rightarrow> jsnum \<Rightarrow> jsnum \<Rightarrow> GameState \<Rightarrow> Outcome" where
  "handleMove playerId mx my st =
     (case map_of (players st) playerId of
        None \<Rightarrow> done_with st []
      | Some player \<Rightarrow>
          (let (tx, ty) = limit_movement player mx my;
               moved = player\<lparr>position := \<lparr>pos_x = clamp_to_map tx, pos_y = clamp_to_map ty\<rparr>\<rparr>;
               st' = st\<lparr>players := AList.update playerId moved (players st)\<rparr>
           in done_with st' (broadcast st' (PlayerMoved playerId (position moved)) None)))"

definition handleJoin :: "string \<Rightarrow> string \<Rightarrow> WebSocket \<Rightarrow> real \<Rightarrow> real \<Rightarrow> GameState \<Rightarrow> Outcome" where
  \<comment> \<open>\<open>r1\<close> and \<open>r2\<close> are the two draws of \<open>Math.random()\<close>, in the order they are made.\<close>
  "handleJoin playerId msg_name w r1 r2 st =
     (let factionIndex = length (players st) mod length FACTIONS;
          player = \<lparr>player_id = playerId,
                    name = (if msg_name = [] then ''Warrior_'' @ take 4 playerId else msg_name),
                    faction = FACTIONS ! factionIndex,
                    position = \<lparr>pos_x = jadd (Fin 20) (jmul (Fin r1) (Fin 60)),
                                pos_y = jadd (Fin 20) (jmul (Fin r2) (Fin 60))\<rparr>,
                    gold = Fin 1000,
                    army = [\<lparr>unit_type = ''infantry'', count = Fin 20, level = Fin 1\<rparr>,
                            \<lparr>unit_type = ''archer'', count = Fin 10, level = Fin 1\<rparr>],
                    color = FACTION_COLORS ! factionIndex,
                    ws = Some w\<rparr>;
          st' = st\<lparr>players := AList.update playerId player (players st)\<rparr>
      in done_with st'
           (send w (Init playerId (sanitizePlayer player)
                      (map (\<lambda>(k, p). sanitizePlayer p) (players st')) (territories st'))
            @ broadcast st' (PlayerJoined (sanitizePlayer player)) (Some playerId)))"

text \<open>
  \<open>army.find(u => u.type === unitType)\<close> returns the first stack of the type, and
  \<open>existing.count += message.count\<close> writes to that stack where it stands in the army.
\<close>

fun map_first :: "('a \<Rightarrow> bool) \<Rightarrow> ('a \<Rightarrow> 'a) \<Rightarrow> 'a list \<Rightarrow> 'a list" where
  "map_first P f [] = []"
| "map_first P f (u # us) = (if P u then f u # us else u # map_first P f us)"

definition add_units :: "string \<Rightarrow> jsnum \<Rightarrow> Unit list \<Rightarrow> Unit list" where
  "add_units unitType n a =
     (case find (\<lambda>u. unit_type u = unitType) a of
        Some existing \<Rightarrow> map_first (\<lambda>u. unit_type u = unitType) (\<lambda>u. u\<lparr>count := jadd (count u) n\<rparr>) a
      | None \<Rightarrow> a @ [\<lparr>unit_type = unitType, count = n, level = Fin 1\<rparr>])"

definition handleRecruit :: "string \<Rightarrow> string \<Rightarrow> jsnum \<Rightarrow> GameState \<Rightarrow> Outcome" where
  "handleRecruit playerId unitType n st =
     (case map_of (players st) playerId of
        None \<Rightarrow> done_with st []
      | Some player \<Rightarrow>
          (case UNIT_STATS unitType of
             None \<Rightarrow> done_with st []
           | Some stats \<Rightarrow>
               (let cst = jmul (cost stats) n in
                if jlt (gold player) cst
                then (case send_bang (ws player) (ErrorMsg ''Not enough gold'') of
                        None \<Rightarrow> thrown_with st []
                      | Some out \<Rightarrow> done_with st out)
                else (let recruited = player\<lparr>gold := jsub (gold player) cst,
                                             army := add_units unitType n (army player)\<rparr>;
                          st' = st\<lparr>players := AList.update playerId recruited (players st)\<rparr>
                      in case send_bang (ws recruited) (Recruited (sanitizePlayer recruited)) of
                           None \<Rightarrow> thrown_with st' []
                         | Some out \<Rightarrow> done_with st' out))))"

subsection \<open>Battles\<close>

text \<open>
  \<open>resolveBattle\<close> gets two references into \<open>state.players\<close>, which are the same object
  when a player attacks itself, and mutates through them. The model keeps the
  references as the two keys and applies each mutation to the store, in the order of
  the source; \<open>attacker\<close> and \<open>defender\<close> are the records as they stand at the call.
\<close>

definition update_player :: "string \<Rightarrow> (Player \<Rightarrow> Player) \<Rightarrow> GameState \<Rightarrow> GameState" where
  "update_player playerId f st = st\<lparr>players := AList.map_entry playerId f (players st)\<rparr>"

definition random_factor :: "real \<Rightarrow> jsnum" where
  \<comment> \<open>\<open>0.8 + Math.random() * 0.4\<close>\<close>
  "random_factor r = jadd (Fin (8 / 10)) (jmul (Fin r) (Fin (4 / 10)))"

definition battle_ratio :: "jsnum \<Rightarrow> jsnum \<Rightarrow> jsnum" where
  "battle_ratio atk dfn = (if jgt atk dfn then jdiv dfn atk else jdiv atk dfn)"

definition winnerLossRatio :: "jsnum \<Rightarrow> jsnum" where
  "winnerLossRatio ratio = jmul ratio (Fin (3 / 10))"

definition loserLossRatio :: "jsnum \<Rightarrow> jsnum" where
  "loserLossRatio ratio = jadd (Fin (5 / 10)) (jmul (jsub (Fin 1) ratio) (Fin (5 / 10)))"

definition apply_losses :: "jsnum \<Rightarrow> Player \<Rightarrow> Player" where
  "apply_losses lossRatio p =
     p\<lparr>army := map (\<lambda>u. u\<lparr>count := Math_floor (jmul (count u) (jsub (Fin 1) lossRatio))\<rparr>) (army p)\<rparr>"

definition remove_empty :: "Player \<Rightarrow> Player" where
  "remove_empty p = p\<lparr>army := filter (\<lambda>u. jgt (count u) (Fin 0)) (army p)\<rparr>"

definition resolveBattle ::
  "string \<Rightarrow> Player \<Rightarrow> string \<Rightarrow> Player \<Rightarrow> real \<Rightarrow> real \<Rightarrow> GameState \<Rightarrow> (GameState \<times> BattleOutcome) option" where
  "resolveBattle attackerId attacker defenderId defender r1 r2 st =
     (case getArmyPower (army attacker) of
        None \<Rightarrow> None
      | Some pa \<Rightarrow>
     (case getArmyPower (army defender) of
        None \<Rightarrow> None
      | Some pd \<Rightarrow>
          (let atk = jmul pa (random_factor r1);
               dfn = jmul pd (random_factor r2);
               attackerWins = jgt atk dfn;
               ratio = battle_ratio atk dfn;
               winnerId = (if attackerWins then attackerId else defenderId);
               loserId = (if attackerWins then defenderId else attackerId);
               st1 = update_player winnerId (apply_losses (winnerLossRatio ratio)) st;
               st2 = update_player loserId (apply_losses (loserLossRatio ratio)) st1;
               st3 = update_player winnerId remove_empty st2;
               st4 = update_player loserId remove_empty st3;
               lt = Math_floor (jmul (gold (if attackerWins then defender else attacker)) (Fin (3 / 10)));
               st5 = update_player winnerId (\<lambda>p. p\<lparr>gold := jadd (gold p) lt\<rparr>) st4;
               st6 = update_player loserId (\<lambda>p. p\<lparr>gold := jsub (gold p) lt\<rparr>) st5
           in Some (st6,
                \<lparr>winner = name (if attackerWins then attacker else defender),
                 loser = name (if attackerWins then defender else attacker),
                 attackPower = Math_round atk,
                 defensePower = Math_round dfn,
                 loot = lt\<rparr>))))"

definition handleAttack :: "string \<Rightarrow> string option \<Rightarrow> real \<Rightarrow> real \<Rightarrow> GameState \<Rightarrow> Outcome" where
  "handleAttack playerId targetId r1 r2 st =
     (case map_of (players st) playerId of
        None \<Rightarrow> done_with st []
      | Some attacker \<Rightarrow>
     (case targetId of
        None \<Rightarrow> done_with st []
      | Some tid \<Rightarrow>
          if tid = [] then done_with st []
          else
     (case map_of (players st) tid of
        None \<Rightarrow> done_with st []
      | Some defender \<Rightarrow>
          (let dx = jsub (pos_x (position attacker)) (pos_x (position defender));
               dy = jsub (pos_y (position attacker)) (pos_y (position defender))
           in if jgt (jsqrt (jadd (jmul dx dx) (jmul dy dy))) (Fin 5)
              then (case send_bang (ws attacker) (ErrorMsg ''Too far to attack'') of
                      None \<Rightarrow> thrown_with st []
                    | Some out \<Rightarrow> done_with st out)
              else
     (case resolveBattle playerId attacker tid defender r1 r2 st of
        None \<Rightarrow> thrown_with st []
      | Some (st', battle) \<Rightarrow>
     (case send_bang (ws attacker) (BattleResult battle ''attacker'') of
        None \<Rightarrow> thrown_with st' []
      | Some out1 \<Rightarrow>
     (case send_bang (ws defender) (BattleResult battle ''defender'') of
        None \<Rightarrow> thrown_with st' out1
      | Some out2 \<Rightarrow>
          done_with st'
            (out1 @ out2 @
             broadcast st' (BattleOccurred (name attacker) (name defender) (winner battle)) None))))))))"

definition handleChat :: "string \<Rightarrow> string \<Rightarrow> GameState \<Rightarrow> Outcome" where
  "handleChat playerId txt st =
     (case map_of (players st) playerId of
        None \<Rightarrow> done_with st []
      | Some player \<Rightarrow>
          done_with st (broadcast st (ChatMsg playerId (name player) (faction player) (take 200 txt)) None))"

datatype inbound =
  Join string
| Move jsnum jsnum
| Recruit string jsnum
| Attack "string option"
| ChatIn string
| Other

definition handleMessage :: "string \<Rightarrow> inbound \<Rightarrow> WebSocket \<Rightarrow> real \<Rightarrow> real \<Rightarrow> GameState \<Rightarrow> Outcome" where
  "handleMessage playerId msg w r1 r2 st =
     (case msg of
        Join nm \<Rightarrow> handleJoin playerId nm w r1 r2 st
      | Move mx my \<Rightarrow> handleMove playerId mx my st
      | Recruit unitType n \<Rightarrow> handleRecruit playerId unitType n st
      | Attack targetId \<Rightarrow> handleAttack playerId targetId r1 r2 st
      | ChatIn txt \<Rightarrow> handleChat playerId txt st
      | Other \<Rightarrow> done_with st [])"

text \<open>The \<open>close\<close> handler of a connection.\<close>

definition handleClose :: "string \<Rightarrow> GameState \<Rightarrow> Outcome" where
  "handleClose playerId st =
     (case map_of (players st) playerId of
        None \<Rightarrow> done_with st []
      | Some player \<Rightarrow>
          (let st' = st\<lparr>players := AList.delete playerId (players st)\<rparr>
           in done_with st' (broadcast st' (PlayerLeft playerId) None)))"

subsection \<open>The game loop\<close>

fun territory_income :: "string \<Rightarrow> Territory list \<Rightarrow> jsnum \<Rightarrow> jsnum" where
  "territory_income f [] g = g"
| "territory_income f (t # ts) g =
     territory_income f ts (if owner t = Some f then jadd g (jdiv (income t) (Fin 10)) else g)"

text \<open>
  The payout's \<open>forEach\<close> over the players. A player with no handle makes \<open>send\<close> throw,
  which ends the loop and the whole callback: the players before it are paid and told,
  that player is paid, the others are not reached.
\<close>

fun pay_income :: "Territory list \<Rightarrow> (string \<times> Player) list \<Rightarrow> (string \<times> Player) list \<times> outbox \<times> bool" where
  "pay_income ts [] = ([], [], False)"
| "pay_income ts ((k, p) # rest) =
     (let paid = p\<lparr>gold := territory_income (faction p) ts (jadd (gold p) (Fin 50))\<rparr>
      in case send_bang (ws paid) (GoldUpdate (gold paid)) of
           None \<Rightarrow> ((k, paid) # rest, [], True)
         | Some out \<Rightarrow>
             (case pay_income ts rest of
                (rest', out', t) \<Rightarrow> ((k, paid) # rest', out @ out', t)))"

definition game_tick :: "GameState \<Rightarrow> Outcome" where
  "game_tick st =
     (let st1 = st\<lparr>tick := tick st + 1\<rparr>;
          (ps, out, t) = (if tick st1 mod 60 = 0 then pay_income (territories st1) (players st1)
                          else (players st1, [], False));
          st2 = st1\<lparr>players := ps\<rparr>
      in if t then thrown_with st2 out
         else if tick st2 mod 10 = 0
              then done_with st2
                     (out @ broadcast st2 (TickMsg (map (\<lambda>(k, p). sanitizePlayer p) (players st2))) None)
              else done_with st2 out)"

section \<open>Observations\<close>

text \<open>The player records a message carries.\<close>

fun players_in :: "message \<Rightarrow> Player list" where
  "players_in (Init pid p ps ts) = p # ps"
| "players_in (PlayerJoined p) = [p]"
| "players_in (TickMsg ps) = ps"
| "players_in (Recruited p) = [p]"
| "players_in _ = []"

definition in_map :: "Position \<Rightarrow> bool" where
  \<comment> \<open>\<open>0 \<le> x \<le> MAP_SIZE\<close> and \<open>0 \<le> y \<le> MAP_SIZE\<close>, with the comparisons of the language\<close>
  "in_map pos \<longleftrightarrow>
     jle (Fin 0) (pos_x pos) \<and> jle (pos_x pos) MAP_SIZE \<and>
     jle (Fin 0) (pos_y pos) \<and> jle (pos_y pos) MAP_SIZE"

definition gold_of :: "GameState \<Rightarrow> string \<Rightarrow> jsnum option" where
  "gold_of st playerId = map_option gold (map_of (players st) playerId)"

definition army_of :: "GameState \<Rightarrow> string \<Rightarrow> Unit list option" where
  "army_of st playerId = map_option army (map_of (players st) playerId)"


definition army_after :: "(GameState \<times> BattleOutcome) option \<Rightarrow> string \<Rightarrow> Unit list option" where
  "army_after res playerId = (case res of None \<Rightarrow> None | Some (st', b) \<Rightarrow> army_of st' playerId)"

definition report_of :: "(GameState \<times> BattleOutcome) option \<Rightarrow> BattleOutcome option" where
  "report_of res = map_option snd res"


text \<open>The Euclidean distance between two positions, computed as the move handler does.\<close>

definition euclid :: "Position \<Rightarrow> Position \<Rightarrow> jsnum" where
  "euclid a b =
     (let dx = jsub (pos_x b) (pos_x a); dy = jsub (pos_y b) (pos_y a)
      in jsqrt (jadd (jmul dx dx) (jmul dy dy)))"

text \<open>
  A player record as it may go over the wire: it has no connection handle, and every
  other field of it is the field of one player of the given state. This is said with
  the record update, not with \<open>sanitizePlayer\<close>, so that it is a requirement on what
  \<open>sanitizePlayer\<close> returns.
\<close>

definition redacted_copy :: "GameState \<Rightarrow> Player \<Rightarrow> bool" where
  "redacted_copy st p \<longleftrightarrow> ws p = None \<and> (\<exists>q \<in> snd ` set (players st). p = q\<lparr>ws := None\<rparr>)"

definition redacted :: "GameState \<Rightarrow> outbox \<Rightarrow> bool" where
  "redacted st out \<longleftrightarrow> (\<forall>(w, m) \<in> set out. \<forall>p \<in> set (players_in m). redacted_copy st p)"

text \<open>
  A run of joins, one per connection: the session id, the name sent, the socket and the
  two random draws of each.
\<close>

fun join_all :: "(string \<times> string \<times> WebSocket \<times> real \<times> real) list \<Rightarrow> GameState \<Rightarrow> GameState" where
  "join_all [] st = st"
| "join_all ((playerId, nm, w, r1, r2) # js) st =
     join_all js (new_state (handleJoin playerId nm w r1 r2 st))"

section \<open>Example states\<close>

definition sock1 :: WebSocket where
  "sock1 = \<lparr>sock = 1, readyState = OPEN\<rparr>"

definition sock2 :: WebSocket where
  "sock2 = \<lparr>sock = 2, readyState = OPEN\<rparr>"

definition empty_state :: GameState where
  "empty_state = \<lparr>players = [], territories = [], tick = 0\<rparr>"

text \<open>One player, joined with both random draws at one half: it stands at (50, 50).\<close>

definition first_player :: Player where
  "first_player =
     \<lparr>player_id = ''a1b2c3d4'', name = ''Warrior_a1b2'', faction = ''Swadia'',
      position = \<lparr>pos_x = Fin 50, pos_y = Fin 50\<rparr>, gold = Fin 1000,
      army = [\<lparr>unit_type = ''infantry'', count = Fin 20, level = Fin 1\<rparr>,
              \<lparr>unit_type = ''archer'', count = Fin 10, level = Fin 1\<rparr>],
      color = ''#3b82f6'', ws = Some sock1\<rparr>"

definition one_player :: GameState where
  "one_player = new_state (handleJoin ''a1b2c3d4'' [] sock1 (1 / 2) (1 / 2) empty_state)"

text \<open>A second player joins with the same draws: both stand at (50, 50).\<close>

definition second_player :: Player where
  "second_player =
     \<lparr>player_id = ''e5f6a7b8'', name = ''Bob'', faction = ''Vaegirs'',
      position = \<lparr>pos_x = Fin 50, pos_y = Fin 50\<rparr>, gold = Fin 1000,
      army = [\<lparr>unit_type = ''infantry'', count = Fin 20, level = Fin 1\<rparr>,
              \<lparr>unit_type = ''archer'', count = Fin 10, level = Fin 1\<rparr>],
      color = ''#ef4444'', ws = Some sock2\<rparr>"

definition two_players :: GameState where
  "two_players = new_state (handleJoin ''e5f6a7b8'' ''Bob'' sock2 (1 / 2) (1 / 2) one_player)"




text \<open>
  Two small armies: one infantry and one cavalry (power 55) against three archers
  (power 60).
\<close>

definition small_winner :: Player where
  "small_winner =
     first_player\<lparr>army := [\<lparr>unit_type = ''infantry'', count = Fin 1, level = Fin 1\<rparr>,
                            \<lparr>unit_type = ''cavalry'', count = Fin 1, level = Fin 1\<rparr>]\<rparr>"

definition small_loser :: Player where
  "small_loser = second_player\<lparr>army := [\<lparr>unit_type = ''archer'', count = Fin 3, level = Fin 1\<rparr>]\<rparr>"

definition small_battle_state :: GameState where
  "small_battle_state =
     \<lparr>players = [(''a1b2c3d4'', small_winner), (''e5f6a7b8'', small_loser)], territories = [], tick = 0\<rparr>"

section \<open>Evaluation\<close>

lemmas number_defs = jsub_def jgt_def inf_of_sign_def MAP_SIZE_def clamp_to_map_def

lemmas delivery_defs = done_with_def thrown_with_def send_def send_bang_def broadcast_def
  sanitizePlayer_def OPEN_def sock1_def sock2_def

lemmas join_defs = handleJoin_def FACTIONS_def FACTION_COLORS_def empty_state_def Let_def

lemma one_player_players: "players one_player = [(''a1b2c3d4'', first_player)]"
  by (simp add: one_player_def first_player_def join_defs delivery_defs)

lemma one_player_territories: "territories one_player = []"
  by (simp add: one_player_def join_defs delivery_defs)

lemma two_players_players:
  "players two_players = [(''a1b2c3d4'', first_player), (''e5f6a7b8'', second_player)]"
  by (simp add: two_players_def one_player_players second_player_def join_defs delivery_defs)


section \<open>The movement validator\<close>

text \<open>
  Finite targets first. With the player at a finite position, the speed check and the
  clamp are plain real arithmetic: the shortened target lies at exactly the budget from
  the current position, the stored position is inside the map, and from a position
  inside the map the clamp does not lengthen the step. These are statements of exact
  arithmetic: a finite target so far away that \<open>dx * dx\<close> overflows a double is outside
  them.
\<close>

lemma clamp_to_map_Fin: "clamp_to_map (Fin v) = Fin (max 0 (min 100 v))"
  by (simp add: number_defs max_def min_def)

lemma getArmySpeed_cases: "getArmySpeed a = Fin 1 \<or> getArmySpeed a = Fin 2"
  by (simp add: getArmySpeed_def)

lemma rescale_distance:
  fixes dx dy b :: real
  assumes "b < sqrt (dx * dx + dy * dy)" and "0 \<le> b"
  shows "sqrt (dx * (b / sqrt (dx * dx + dy * dy)) * (dx * (b / sqrt (dx * dx + dy * dy)))
             + dy * (b / sqrt (dx * dx + dy * dy)) * (dy * (b / sqrt (dx * dx + dy * dy)))) = b"
proof -
  define d where "d = sqrt (dx * dx + dy * dy)"
  have "0 \<le> b" by fact
  also have "b < d" using assms(1) by (simp add: d_def)
  finally have dpos: "0 < d" .
  have dd: "d * d = dx * dx + dy * dy"
    unfolding d_def by (simp add: add_nonneg_nonneg)
  define k where "k = b / d"
  have kd: "k * d = b" using dpos by (simp add: k_def)
  have "(k * d) * (k * d) = (d * d) * (k * k)"
    by (simp add: algebra_simps)
  also have "\<dots> = dx * k * (dx * k) + dy * k * (dy * k)"
    unfolding dd by (simp add: algebra_simps)
  finally have "dx * k * (dx * k) + dy * k * (dy * k) = (k * d) * (k * d)"
    by simp
  then have "sqrt (dx * k * (dx * k) + dy * k * (dy * k)) = \<bar>b\<bar>"
    by (simp add: kd)
  then show ?thesis using assms(2) by (simp add: d_def k_def)
qed

lemma limit_movement_Fin:
  assumes pos: "position player = \<lparr>pos_x = Fin px, pos_y = Fin py\<rparr>"
    and speed: "getArmySpeed (army player) = Fin s" and s: "0 \<le> s"
  shows "limit_movement player (Fin mx) (Fin my) =
     (let dx = mx - px; dy = my - py; d = sqrt (dx * dx + dy * dy)
      in if s * 5 < d then (Fin (px + dx * (s * 5 / d)), Fin (py + dy * (s * 5 / d)))
         else (Fin mx, Fin my))"
proof -
  have nonneg: "\<not> (mx - px) * (mx - px) + (my - py) * (my - py) < 0"
    by (simp add: not_less)
  show ?thesis
  proof (cases "s * 5 < sqrt ((mx - px) * (mx - px) + (my - py) * (my - py))")
    case True
    then have "sqrt ((mx - px) * (mx - px) + (my - py) * (my - py)) \<noteq> 0"
      using s by auto
    with True nonneg show ?thesis
      by (simp add: limit_movement_def number_defs Let_def pos speed)
  next
    case False
    with nonneg show ?thesis
      by (simp add: limit_movement_def number_defs Let_def pos speed)
  qed
qed

lemma euclid_Fin:
  "euclid \<lparr>pos_x = Fin ax, pos_y = Fin ay\<rparr> \<lparr>pos_x = Fin bx, pos_y = Fin by'\<rparr>
     = Fin (sqrt ((bx - ax) * (bx - ax) + (by' - ay) * (by' - ay)))"
proof -
  have "\<not> (bx - ax) * (bx - ax) + (by' - ay) * (by' - ay) < 0"
    by (simp add: not_less)
  then show ?thesis by (simp add: euclid_def number_defs Let_def)
qed

lemma limit_movement_exact:
  assumes pos: "position player = \<lparr>pos_x = Fin px, pos_y = Fin py\<rparr>"
    and over: "jgt (euclid (position player) \<lparr>pos_x = Fin mx, pos_y = Fin my\<rparr>)
                   (jmul (getArmySpeed (army player)) (Fin 5))"
  shows "euclid (position player)
           \<lparr>pos_x = fst (limit_movement player (Fin mx) (Fin my)),
            pos_y = snd (limit_movement player (Fin mx) (Fin my))\<rparr>
         = jmul (getArmySpeed (army player)) (Fin 5)"
proof -
  obtain s where speed: "getArmySpeed (army player) = Fin s" and s: "0 \<le> s"
    using getArmySpeed_cases [of "army player"] by auto
  define d where "d = sqrt ((mx - px) * (mx - px) + (my - py) * (my - py))"
  from over have far: "s * 5 < d"
    by (simp add: pos speed euclid_Fin jgt_def d_def)
  have "limit_movement player (Fin mx) (Fin my)
          = (Fin (px + (mx - px) * (s * 5 / d)), Fin (py + (my - py) * (s * 5 / d)))"
    using far by (simp add: limit_movement_Fin [OF pos speed s] Let_def d_def)
  moreover have "sqrt ((mx - px) * (s * 5 / d) * ((mx - px) * (s * 5 / d))
                     + (my - py) * (s * 5 / d) * ((my - py) * (s * 5 / d))) = s * 5"
    unfolding d_def using far s by (intro rescale_distance) (simp_all add: d_def)
  ultimately show ?thesis
    by (simp add: pos speed euclid_Fin)
qed

lemma clamp_closer:
  fixes p t :: real
  assumes "0 \<le> p" and "p \<le> 100"
  shows "(max 0 (min 100 t) - p) * (max 0 (min 100 t) - p) \<le> (t - p) * (t - p)"
proof -
  have "\<bar>max 0 (min 100 t) - p\<bar> \<le> \<bar>t - p\<bar>"
    using assms by (simp add: max_def min_def abs_if)
  then have "\<bar>max 0 (min 100 t) - p\<bar> * \<bar>max 0 (min 100 t) - p\<bar> \<le> \<bar>t - p\<bar> * \<bar>t - p\<bar>"
    by (intro mult_mono) simp_all
  then show ?thesis by simp
qed

lemma map_of_update_same: "map_of (AList.update k v al) k = Some v"
  by (simp add: update_conv')

lemma handleMove_position:
  assumes "map_of (players st) playerId = Some player"
  shows "map_option position (map_of (players (new_state (handleMove playerId mx my st))) playerId)
         = Some \<lparr>pos_x = clamp_to_map (fst (limit_movement player mx my)),
                 pos_y = clamp_to_map (snd (limit_movement player mx my))\<rparr>"
  using assms
  by (simp add: handleMove_def done_with_def map_of_update_same Let_def split: prod.splits)

lemma move_finite_in_map:
  assumes reg: "map_of (players st) playerId = Some player"
    and pos: "position player = \<lparr>pos_x = Fin px, pos_y = Fin py\<rparr>"
  shows "\<exists>p. map_option position
             (map_of (players (new_state (handleMove playerId (Fin mx) (Fin my) st))) playerId) = Some p
           \<and> in_map p"
proof -
  obtain s where speed: "getArmySpeed (army player) = Fin s" and s: "0 \<le> s"
    using getArmySpeed_cases [of "army player"] by auto
  have "\<exists>tx ty. limit_movement player (Fin mx) (Fin my) = (Fin tx, Fin ty)"
    by (simp add: limit_movement_Fin [OF pos speed s] Let_def)
  then obtain tx ty where t: "limit_movement player (Fin mx) (Fin my) = (Fin tx, Fin ty)"
    by blast
  show ?thesis
    by (simp add: handleMove_position [OF reg] t clamp_to_map_Fin in_map_def MAP_SIZE_def)
qed

lemma move_displacement_bounded:
  assumes reg: "map_of (players st) playerId = Some player"
    and pos: "position player = \<lparr>pos_x = Fin px, pos_y = Fin py\<rparr>"
    and inside: "0 \<le> px" "px \<le> 100" "0 \<le> py" "py \<le> 100"
  shows "\<exists>p. map_option position
             (map_of (players (new_state (handleMove playerId (Fin mx) (Fin my) st))) playerId) = Some p
           \<and> jle (euclid (position player) p) (jmul (getArmySpeed (army player)) (Fin 5))"
proof -
  obtain s where speed: "getArmySpeed (army player) = Fin s" and s: "0 \<le> s"
    using getArmySpeed_cases [of "army player"] by auto
  define d where "d = sqrt ((mx - px) * (mx - px) + (my - py) * (my - py))"
  define tx where "tx = (if s * 5 < d then px + (mx - px) * (s * 5 / d) else mx)"
  define ty where "ty = (if s * 5 < d then py + (my - py) * (s * 5 / d) else my)"
  have t: "limit_movement player (Fin mx) (Fin my) = (Fin tx, Fin ty)"
    by (simp add: limit_movement_Fin [OF pos speed s] Let_def d_def tx_def ty_def)
  have target: "sqrt ((tx - px) * (tx - px) + (ty - py) * (ty - py)) \<le> s * 5"
  proof (cases "s * 5 < d")
    case True
    then have "sqrt ((mx - px) * (s * 5 / d) * ((mx - px) * (s * 5 / d))
                   + (my - py) * (s * 5 / d) * ((my - py) * (s * 5 / d))) = s * 5"
      unfolding d_def using s by (intro rescale_distance) simp_all
    with True show ?thesis by (simp add: tx_def ty_def)
  next
    case False
    then show ?thesis by (simp add: tx_def ty_def d_def)
  qed
  have "(max 0 (min 100 tx) - px) * (max 0 (min 100 tx) - px)
          + (max 0 (min 100 ty) - py) * (max 0 (min 100 ty) - py)
        \<le> (tx - px) * (tx - px) + (ty - py) * (ty - py)"
    using clamp_closer [OF inside(1,2), of tx] clamp_closer [OF inside(3,4), of ty] by linarith
  then have "sqrt ((max 0 (min 100 tx) - px) * (max 0 (min 100 tx) - px)
                 + (max 0 (min 100 ty) - py) * (max 0 (min 100 ty) - py)) \<le> s * 5"
    using target by (meson order_trans real_sqrt_le_mono)
  then show ?thesis
    by (simp add: handleMove_position [OF reg] t clamp_to_map_Fin pos speed euclid_Fin)
qed

text \<open>
  C2, at the request \<open>{"type":"move","x":1e999,"y":0}\<close>. \<open>JSON.parse\<close> reads \<open>1e999\<close> as
  \<open>Infinity\<close>. The player stands at (50, 50) inside the map. The distance is infinite, so
  the speed limit applies with \<open>ratio = 5 / Infinity = 0\<close>, and \<open>dx * ratio\<close> is
  \<open>Infinity * 0\<close>, which is NaN. \<open>Math.min\<close> and \<open>Math.max\<close> pass NaN on, so the clamp stores
  NaN as the player's \<open>x\<close>: the resulting position is not within \<open>0 \<le> x \<le> MAP_SIZE\<close>.
\<close>

theorem move_to_infinity_leaves_map:
  "map_option position (map_of (players one_player) ''a1b2c3d4'')
     = Some \<lparr>pos_x = Fin 50, pos_y = Fin 50\<rparr>
   \<and> in_map \<lparr>pos_x = Fin 50, pos_y = Fin 50\<rparr>
   \<and> map_option position
        (map_of (players (new_state (handleMove ''a1b2c3d4'' PosInf (Fin 0) one_player))) ''a1b2c3d4'')
     = Some \<lparr>pos_x = NaN, pos_y = Fin 50\<rparr>
   \<and> \<not> in_map \<lparr>pos_x = NaN, pos_y = Fin 50\<rparr>"
  by (simp add: one_player_players first_player_def handleMove_def limit_movement_def
      getArmySpeed_def number_defs delivery_defs in_map_def Let_def)

text \<open>
  C1, at the same request \<open>{"type":"move","x":1e999,"y":0}\<close> from (50, 50) with the
  starter army (speed 1, budget 5). The requested distance is infinite and exceeds the
  budget. The shortened target is \<open>(NaN, 50)\<close>: its distance from the current position
  is NaN, not the budget 5, and that target is what the clamp stores.
\<close>

theorem move_to_infinity_misses_budget:
  "jmul (getArmySpeed (army first_player)) (Fin 5) = Fin 5
   \<and> jgt (euclid (position first_player) \<lparr>pos_x = PosInf, pos_y = Fin 0\<rparr>) (Fin 5)
   \<and> limit_movement first_player PosInf (Fin 0) = (NaN, Fin 50)
   \<and> euclid (position first_player) \<lparr>pos_x = NaN, pos_y = Fin 50\<rparr> = NaN"
  by (simp add: first_player_def limit_movement_def getArmySpeed_def euclid_def
      number_defs Let_def)

section \<open>The battle resolver\<close>

lemma lookup_update_player:
  "map_of (players (update_player k f st)) k' =
     (if k' = k then map_option f (map_of (players st) k) else map_of (players st) k')"
  by (simp add: update_player_def map_of_map_entry split: option.splits)








subsection \<open>The closeness ratio\<close>









text \<open>
  C4 also ends on "so the winner never loses proportionally more units than the
  loser", which the flooring of every stack does not bear out. One infantry and one
  cavalry beat three archers (55 against 48 after the random factors): the winner's
  loss fraction is about 0.26 and the loser's about 0.56, but each of the winner's
  stacks of one unit is floored to 0 and pruned, while one archer of three is left.
\<close>

lemma winner_can_lose_every_unit:
  "getArmyPower (army small_winner) = Some (Fin 55)
   \<and> getArmyPower (army small_loser) = Some (Fin 60)
   \<and> map_option winner
        (report_of (resolveBattle ''a1b2c3d4'' small_winner ''e5f6a7b8'' small_loser (1 / 2) 0
           small_battle_state)) = Some (name small_winner)
   \<and> army_after (resolveBattle ''a1b2c3d4'' small_winner ''e5f6a7b8'' small_loser (1 / 2) 0
         small_battle_state) ''a1b2c3d4'' = Some []
   \<and> army_after (resolveBattle ''a1b2c3d4'' small_winner ''e5f6a7b8'' small_loser (1 / 2) 0
         small_battle_state) ''e5f6a7b8''
       = Some [\<lparr>unit_type = ''archer'', count = Fin 1, level = Fin 1\<rparr>]"
  by (simp add: small_battle_state_def small_winner_def small_loser_def first_player_def
      second_player_def resolveBattle_def getArmyPower_def UNIT_STATS_def random_factor_def
      battle_ratio_def winnerLossRatio_def loserLossRatio_def jgt_def jsub_def report_of_def
      army_after_def army_of_def lookup_update_player remove_empty_def apply_losses_def Let_def)






section \<open>Recruitment\<close>

lemma jmul_commute: "jmul a b = jmul b a"
  by (cases a; cases b) (auto simp: inf_of_sign_def)

lemma find_map_first:
  assumes "find P a = Some e" and "P (f e)"
  shows "find P (map_first P f a) = Some (f e)"
  using assms by (induction a) (auto split: if_splits)

lemma length_map_first: "length (map_first P f a) = length a"
  by (induction a) auto

lemma filter_map_first:
  "filter (\<lambda>u. \<not> P u) (map_first P f a) = filter (\<lambda>u. \<not> P u) a" if "\<And>u. P u \<Longrightarrow> P (f u)"
  using that by (induction a) auto

text \<open>
  C5. A registered player whose socket is open asks for \<open>n\<close> units of one of the three
  unit types. The request is rejected, which is the error message to the requester and
  the state as it was, exactly when \<open>count * unitCost > gold\<close>. Otherwise the answer is
  \<open>recruited\<close> with the redacted player, and in the new state the player differs from
  the old one in gold and army only: the gold is the old gold minus
  \<open>count * unitCost\<close>; the first stack of the type has its count raised by \<open>count\<close>, or,
  with no such stack, a level-1 stack of \<open>count\<close> units is appended; the stacks of the
  other types and all other players are untouched.
\<close>

theorem recruit_rejected_iff_too_expensive:
  assumes reg: "map_of (players st) playerId = Some player"
    and known: "unitType \<in> {''infantry'', ''archer'', ''cavalry''}"
    and stats: "UNIT_STATS unitType = Some stats"
    and sock: "ws player = Some w" and ready: "readyState w = OPEN"
  shows "(handleRecruit playerId unitType n st = done_with st [(w, ErrorMsg ''Not enough gold'')]
            \<longleftrightarrow> jgt (jmul n (cost stats)) (gold player))
       \<and> (\<not> jgt (jmul n (cost stats)) (gold player) \<longrightarrow>
            (\<exists>st' p'.
                handleRecruit playerId unitType n st = done_with st' [(w, Recruited (sanitizePlayer p'))]
              \<and> map_of (players st') playerId = Some p'
              \<and> (\<forall>k. k \<noteq> playerId \<longrightarrow> map_of (players st') k = map_of (players st) k)
              \<and> p' = player\<lparr>gold := gold p', army := army p'\<rparr>
              \<and> gold p' = jsub (gold player) (jmul n (cost stats))
              \<and> (case find (\<lambda>u. unit_type u = unitType) (army player) of
                    Some existing \<Rightarrow>
                      find (\<lambda>u. unit_type u = unitType) (army p')
                        = Some (existing\<lparr>count := jadd (count existing) n\<rparr>)
                      \<and> length (army p') = length (army player)
                  | None \<Rightarrow>
                      army p' = army player @ [\<lparr>unit_type = unitType, count = n, level = Fin 1\<rparr>])
              \<and> filter (\<lambda>u. unit_type u \<noteq> unitType) (army p')
                  = filter (\<lambda>u. unit_type u \<noteq> unitType) (army player)))"
proof (cases "jgt (jmul n (cost stats)) (gold player)")
  case True
  then have "jlt (gold player) (jmul (cost stats) n)"
    by (simp add: jgt_def jmul_commute)
  then show ?thesis
    using True by (simp add: handleRecruit_def reg stats Let_def send_bang_def send_def sock ready)
next
  case False
  then have no: "\<not> jlt (gold player) (jmul (cost stats) n)"
    by (simp add: jgt_def jmul_commute)
  define p' where "p' = player\<lparr>gold := jsub (gold player) (jmul (cost stats) n),
                               army := add_units unitType n (army player)\<rparr>"
  define st' where "st' = st\<lparr>players := AList.update playerId p' (players st)\<rparr>"
  have run: "handleRecruit playerId unitType n st = done_with st' [(w, Recruited (sanitizePlayer p'))]"
    using no by (simp add: handleRecruit_def reg stats Let_def send_bang_def send_def sock ready
        p'_def st'_def)
  then have not_rejected:
    "handleRecruit playerId unitType n st \<noteq> done_with st [(w, ErrorMsg ''Not enough gold'')]"
    by (simp add: done_with_def)
  have stack: "(case find (\<lambda>u. unit_type u = unitType) (army player) of
                  Some existing \<Rightarrow>
                    find (\<lambda>u. unit_type u = unitType) (army p')
                      = Some (existing\<lparr>count := jadd (count existing) n\<rparr>)
                    \<and> length (army p') = length (army player)
                | None \<Rightarrow>
                    army p' = army player @ [\<lparr>unit_type = unitType, count = n, level = Fin 1\<rparr>])"
  proof (cases "find (\<lambda>u. unit_type u = unitType) (army player)")
    case None
    then show ?thesis by (simp add: p'_def add_units_def)
  next
    case (Some existing)
    then have "unit_type existing = unitType"
      by (auto simp: find_Some_iff)
    with Some show ?thesis
      by (simp add: p'_def add_units_def find_map_first length_map_first)
  qed
  have others: "filter (\<lambda>u. unit_type u \<noteq> unitType) (army p')
                 = filter (\<lambda>u. unit_type u \<noteq> unitType) (army player)"
    by (cases "find (\<lambda>u. unit_type u = unitType) (army player)")
       (simp_all add: p'_def add_units_def filter_map_first)
  have stored: "map_of (players st') playerId = Some p'"
    by (simp add: st'_def update_conv')
  have frame: "\<forall>k. k \<noteq> playerId \<longrightarrow> map_of (players st') k = map_of (players st) k"
    by (simp add: st'_def update_conv')
  have rest: "p' = player\<lparr>gold := gold p', army := army p'\<rparr>"
    by (simp add: p'_def)
  have paid: "gold p' = jsub (gold player) (jmul n (cost stats))"
    by (simp add: p'_def jmul_commute)
  have "\<exists>st' p'.
          handleRecruit playerId unitType n st = done_with st' [(w, Recruited (sanitizePlayer p'))]
        \<and> map_of (players st') playerId = Some p'
        \<and> (\<forall>k. k \<noteq> playerId \<longrightarrow> map_of (players st') k = map_of (players st) k)
        \<and> p' = player\<lparr>gold := gold p', army := army p'\<rparr>
        \<and> gold p' = jsub (gold player) (jmul n (cost stats))
        \<and> (case find (\<lambda>u. unit_type u = unitType) (army player) of
              Some existing \<Rightarrow>
                find (\<lambda>u. unit_type u = unitType) (army p')
                  = Some (existing\<lparr>count := jadd (count existing) n\<rparr>)
                \<and> length (army p') = length (army player)
            | None \<Rightarrow>
                army p' = army player @ [\<lparr>unit_type = unitType, count = n, level = Fin 1\<rparr>])
        \<and> filter (\<lambda>u. unit_type u \<noteq> unitType) (army p')
            = filter (\<lambda>u. unit_type u \<noteq> unitType) (army player)"
    using run stored frame rest paid stack others
    by (intro exI [of _ st'] exI [of _ p'] conjI)
  with False not_rejected show ?thesis by blast
qed

theorem recruit_rejected_iff_too_expensive_witness:
  "jgt (jmul (Fin 7) (Fin 150)) (Fin 1000)
   \<and> handleRecruit ''a1b2c3d4'' ''cavalry'' (Fin 7) one_player
       = done_with one_player [(sock1, ErrorMsg ''Not enough gold'')]
   \<and> \<not> jgt (jmul (Fin 2) (Fin 150)) (Fin 1000)
   \<and> (\<exists>st' p'. handleRecruit ''a1b2c3d4'' ''cavalry'' (Fin 2) one_player
                   = done_with st' [(sock1, Recruited (sanitizePlayer p'))]
              \<and> map_of (players st') ''a1b2c3d4'' = Some p'
              \<and> gold p' = Fin 700
              \<and> army p' = army first_player @ [\<lparr>unit_type = ''cavalry'', count = Fin 2, level = Fin 1\<rparr>])"
proof -
  have reg: "map_of (players one_player) ''a1b2c3d4'' = Some first_player"
    by (simp add: one_player_players)
  have known: "''cavalry'' \<in> {''infantry'', ''archer'', ''cavalry''}" by simp
  have stats: "UNIT_STATS ''cavalry''
                 = Some \<lparr>attack = Fin 20, defense = Fin 10, speed = Fin 2, cost = Fin 150\<rparr>"
    by (simp add: UNIT_STATS_def)
  have sock: "ws first_player = Some sock1" by (simp add: first_player_def)
  have ready: "readyState sock1 = OPEN" by (simp add: sock1_def)
  have none: "find (\<lambda>u. unit_type u = ''cavalry'') (army first_player) = None"
    by (simp add: first_player_def)
  have g: "gold first_player = Fin 1000" by (simp add: first_player_def)
  from recruit_rejected_iff_too_expensive [OF reg known stats sock ready, of "Fin 7"]
    recruit_rejected_iff_too_expensive [OF reg known stats sock ready, of "Fin 2"]
  show ?thesis
    by (simp add: none g jgt_def jsub_def) blast
qed

text \<open>
  C7 as stated fails: for a unit type that is no property of \<open>UNIT_STATS\<close> the handler
  returns at \<open>if (!stats) return\<close> before any \<open>send\<close>. Nothing is sent, the error message
  included; the state is as it was.
\<close>

theorem recruit_unknown_type_counterexample:
  "''dragon'' \<notin> {''infantry'', ''archer'', ''cavalry''}
   \<and> map_of (players one_player) ''a1b2c3d4'' = Some first_player
   \<and> sent (handleRecruit ''a1b2c3d4'' ''dragon'' (Fin 1) one_player) = []
   \<and> new_state (handleRecruit ''a1b2c3d4'' ''dragon'' (Fin 1) one_player) = one_player"
  by (simp add: handleRecruit_def UNIT_STATS_def object_prototype_keys_def one_player_players
      done_with_def)

text \<open>
  C7, amended: a recruit request whose unit type is neither one of the three unit types
  nor a name that \<open>UNIT_STATS\<close> inherits from \<open>Object.prototype\<close> is dropped silently:
  no message is sent and the state is as it was (whether or not the player is
  registered).
\<close>

theorem recruit_unknown_type_is_dropped:
  assumes "unitType \<notin> {''infantry'', ''archer'', ''cavalry''}"
    and "unitType \<notin> set object_prototype_keys"
  shows "handleRecruit playerId unitType n st = done_with st []"
  using assms by (simp add: handleRecruit_def UNIT_STATS_def split: option.splits)

theorem recruit_unknown_type_is_dropped_witness:
  "''wizard'' \<notin> {''infantry'', ''archer'', ''cavalry''}
   \<and> ''wizard'' \<notin> set object_prototype_keys
   \<and> handleRecruit ''a1b2c3d4'' ''wizard'' (Fin 3) one_player = done_with one_player []"
proof -
  have h1: "''wizard'' \<notin> {''infantry'', ''archer'', ''cavalry''}" by simp
  have h2: "''wizard'' \<notin> set object_prototype_keys" by (simp add: object_prototype_keys_def)
  from recruit_unknown_type_is_dropped [OF h1 h2] h1 h2 show ?thesis by simp
qed

text \<open>
  The inherited names are not dropped: \<open>UNIT_STATS['toString']\<close> is a function, which
  passes \<open>if (!stats)\<close>; its \<open>cost\<close> is undefined, the cost of the request is NaN, the gold
  check \<open>gold < NaN\<close> is false, and the request goes through with the gold set to NaN
  and a stack of the type \<open>toString\<close> appended.
\<close>

lemma recruit_inherited_key_is_accepted:
  "''toString'' \<notin> {''infantry'', ''archer'', ''cavalry''}
   \<and> gold_of (new_state (handleRecruit ''a1b2c3d4'' ''toString'' (Fin 1) one_player)) ''a1b2c3d4''
       = Some NaN
   \<and> army_of (new_state (handleRecruit ''a1b2c3d4'' ''toString'' (Fin 1) one_player)) ''a1b2c3d4''
       = Some (army first_player @ [\<lparr>unit_type = ''toString'', count = Fin 1, level = Fin 1\<rparr>])"
  by (simp add: handleRecruit_def UNIT_STATS_def object_prototype_keys_def inherited_member_def
      one_player_players first_player_def gold_of_def army_of_def add_units_def delivery_defs
      jsub_def Let_def)

subsection \<open>Empty stacks\<close>

text \<open>
  C8, at the request \<open>{"type":"recruit","unitType":"cavalry","count":0}\<close> of a player who
  has just joined. The cost is 0, the gold check passes, there is no cavalry stack, and
  the handler appends one with count 0. Nothing in \<open>handleRecruit\<close> removes it: after
  this recruitment the player's army has a stack whose count is 0.
\<close>

theorem recruit_zero_leaves_empty_stack:
  "army_of one_player ''a1b2c3d4''
     = Some [\<lparr>unit_type = ''infantry'', count = Fin 20, level = Fin 1\<rparr>,
             \<lparr>unit_type = ''archer'', count = Fin 10, level = Fin 1\<rparr>]
   \<and> army_of (new_state (handleRecruit ''a1b2c3d4'' ''cavalry'' (Fin 0) one_player)) ''a1b2c3d4''
     = Some [\<lparr>unit_type = ''infantry'', count = Fin 20, level = Fin 1\<rparr>,
             \<lparr>unit_type = ''archer'', count = Fin 10, level = Fin 1\<rparr>,
             \<lparr>unit_type = ''cavalry'', count = Fin 0, level = Fin 1\<rparr>]
   \<and> gold_of (new_state (handleRecruit ''a1b2c3d4'' ''cavalry'' (Fin 0) one_player)) ''a1b2c3d4''
     = Some (Fin 1000)"
  by (simp add: handleRecruit_def UNIT_STATS_def one_player_players first_player_def gold_of_def
      army_of_def add_units_def delivery_defs jsub_def Let_def)

text \<open>
  The battle resolver does prune: after a battle every stack left in either
  participant's army has a count above 0. Recruiting a count above 0 into an army whose
  counts are above 0 keeps them so.
\<close>

lemma battle_prunes:
  assumes "map_of (players st) attackerId = Some attacker"
    and "map_of (players st) defenderId = Some defender"
    and "resolveBattle attackerId attacker defenderId defender r1 r2 st = Some (st', b)"
    and "playerId = attackerId \<or> playerId = defenderId"
    and "army_of st' playerId = Some a"
  shows "\<forall>u \<in> set a. jgt (count u) (Fin 0)"
  using assms
  by (auto simp add: resolveBattle_def Let_def army_of_def lookup_update_player remove_empty_def
      apply_losses_def split: option.splits if_splits)

lemma jadd_positive: "jgt a (Fin 0) \<Longrightarrow> jgt b (Fin 0) \<Longrightarrow> jgt (jadd a b) (Fin 0)"
  by (cases a; cases b) (auto simp: jgt_def)

lemma map_first_positive:
  assumes "\<forall>u \<in> set a. jgt (count u) (Fin 0)" and "jgt n (Fin 0)"
  shows "\<forall>u \<in> set (map_first P (\<lambda>u. u\<lparr>count := jadd (count u) n\<rparr>) a). jgt (count u) (Fin 0)"
  using assms by (induction a) (auto simp: jadd_positive)

lemma recruit_positive_keeps_stacks_positive:
  assumes "\<forall>u \<in> set a. jgt (count u) (Fin 0)" and "jgt n (Fin 0)"
  shows "\<forall>u \<in> set (add_units unitType n a). jgt (count u) (Fin 0)"
  using assms map_first_positive [OF assms, of "\<lambda>u. unit_type u = unitType"]
  by (auto simp: add_units_def split: option.splits)

section \<open>The session registry\<close>

lemma update_fresh: "k \<notin> fst ` set al \<Longrightarrow> AList.update k v al = al @ [(k, v)]"
  by (induction al) auto

lemma handleJoin_players:
  "players (new_state (handleJoin playerId nm w r1 r2 st)) =
     AList.update playerId
       \<lparr>player_id = playerId,
        name = (if nm = [] then ''Warrior_'' @ take 4 playerId else nm),
        faction = FACTIONS ! (length (players st) mod 6),
        position = \<lparr>pos_x = jadd (Fin 20) (jmul (Fin r1) (Fin 60)),
                    pos_y = jadd (Fin 20) (jmul (Fin r2) (Fin 60))\<rparr>,
        gold = Fin 1000,
        army = [\<lparr>unit_type = ''infantry'', count = Fin 20, level = Fin 1\<rparr>,
                \<lparr>unit_type = ''archer'', count = Fin 10, level = Fin 1\<rparr>],
        color = FACTION_COLORS ! (length (players st) mod 6),
        ws = Some w\<rparr>
       (players st)"
  by (simp add: handleJoin_def done_with_def Let_def FACTIONS_def)

lemma join_all_other:
  "k \<notin> fst ` set js \<Longrightarrow> map_of (players (join_all js st)) k = map_of (players st) k"
proof (induction js arbitrary: st)
  case Nil
  then show ?case by simp
next
  case (Cons j js)
  obtain playerId nm w r1 r2 where j: "j = (playerId, nm, w, r1, r2)"
    by (cases j) auto
  with Cons.prems have "k \<noteq> playerId" and "k \<notin> fst ` set js" by auto
  then show ?case
    by (simp add: j Cons.IH handleJoin_players update_conv')
qed

lemma join_all_faction:
  assumes "distinct (map fst js)" and "\<forall>j \<in> set js. fst j \<notin> fst ` set (players st)"
    and "i < length js"
  shows "map_option faction (map_of (players (join_all js st)) (fst (js ! i)))
         = Some (FACTIONS ! ((length (players st) + i) mod 6))"
  using assms
proof (induction js arbitrary: st i)
  case Nil
  then show ?case by simp
next
  case (Cons j js)
  obtain playerId nm w r1 r2 where j: "j = (playerId, nm, w, r1, r2)"
    by (cases j) auto
  let ?st = "new_state (handleJoin playerId nm w r1 r2 st)"
  have fresh: "playerId \<notin> fst ` set (players st)" and later: "playerId \<notin> fst ` set js"
    using Cons.prems by (auto simp: j)
  have grown: "length (players ?st) = Suc (length (players st))"
    and keys: "fst ` set (players ?st) = insert playerId (fst ` set (players st))"
    using fresh by (simp_all add: handleJoin_players update_fresh)
  show ?case
  proof (cases i)
    case 0
    then show ?thesis
      by (simp add: j join_all_other [OF later] handleJoin_players update_conv')
  next
    case (Suc i')
    have "map_option faction (map_of (players (join_all js ?st)) (fst (js ! i')))
          = Some (FACTIONS ! ((length (players ?st) + i') mod 6))"
    proof (rule Cons.IH)
      show "distinct (map fst js)" using Cons.prems(1) by simp
      show "\<forall>j \<in> set js. fst j \<notin> fst ` set (players ?st)"
        using Cons.prems(1,2) by (auto simp: keys j)
      show "i' < length js" using Cons.prems(3) Suc by simp
    qed
    then show ?thesis by (simp add: j Suc grown)
  qed
qed

text \<open>
  C9 as stated fails: the faction index is \<open>state.players.size\<close> at the moment of the
  join, not the number of joins so far. The first player joins (join 0), disconnects,
  and a second session joins (join 1): the registry is empty again, so the second
  session gets \<open>FACTIONS[0]\<close>, Swadia, where \<open>FACTIONS[1 mod 6]\<close> is Vaegirs.
\<close>

theorem rejoin_after_leave_counterexample:
  "players (new_state (handleClose ''a1b2c3d4'' one_player)) = []
   \<and> map_option faction
       (map_of (players (new_state (handleJoin ''e5f6a7b8'' ''Bob'' sock2 (1 / 2) (1 / 2)
                                     (new_state (handleClose ''a1b2c3d4'' one_player)))))
          ''e5f6a7b8'')
     = Some ''Swadia''
   \<and> FACTIONS ! (1 mod 6) = ''Vaegirs''
   \<and> ''Swadia'' \<noteq> FACTIONS ! (1 mod 6)"
  by (simp add: handleClose_def one_player_players handleJoin_players done_with_def FACTIONS_def Let_def)

text \<open>
  C9, amended: a join is assigned \<open>FACTIONS[k mod 6]\<close>, where \<open>k\<close> is the number of
  players registered at the moment of the join, and a player who joins with an empty
  name is named \<open>Warrior_\<close> followed by the first 4 characters of its session id. When
  sessions with distinct ids join a server that has no players, and none leaves, the
  Nth join (0-indexed) is therefore assigned \<open>FACTIONS[N mod 6]\<close>.
\<close>

theorem join_assigns_faction_by_current_size:
  "(\<exists>p. map_of (players (new_state (handleJoin playerId nm w r1 r2 st))) playerId = Some p
        \<and> faction p = FACTIONS ! (length (players st) mod 6)
        \<and> (nm = [] \<longrightarrow> name p = ''Warrior_'' @ take 4 playerId))
   \<and> (distinct (map fst js) \<and> i < length js \<longrightarrow>
        map_option faction (map_of (players (join_all js empty_state)) (fst (js ! i)))
          = Some (FACTIONS ! (i mod 6)))"
proof -
  have "distinct (map fst js) \<and> i < length js \<longrightarrow>
        map_option faction (map_of (players (join_all js empty_state)) (fst (js ! i)))
          = Some (FACTIONS ! (i mod 6))"
    using join_all_faction [of js empty_state i] by (simp add: empty_state_def)
  then show ?thesis
    by (simp add: handleJoin_players update_conv')
qed

theorem join_assigns_faction_by_current_size_witness:
  "map_option faction (map_of (players two_players) ''e5f6a7b8'') = Some ''Vaegirs''
   \<and> (\<exists>p. map_of (players (new_state (handleJoin ''a1b2c3d4'' [] sock1 (1 / 2) (1 / 2) empty_state)))
             ''a1b2c3d4'' = Some p
          \<and> faction p = FACTIONS ! (length (players empty_state) mod 6)
          \<and> name p = ''Warrior_'' @ take 4 ''a1b2c3d4'')
   \<and> map_option faction
        (map_of (players (join_all [(''a1b2c3d4'', [], sock1, 1 / 2, 1 / 2),
                                    (''e5f6a7b8'', ''Bob'', sock2, 1 / 2, 1 / 2)] empty_state))
           ''e5f6a7b8'')
      = Some ''Vaegirs''"
proof -
  have "map_option faction (map_of (players two_players) ''e5f6a7b8'') = Some ''Vaegirs''"
    by (simp add: two_players_players second_player_def)
  moreover from join_assigns_faction_by_current_size
      [of "''a1b2c3d4''" "[]" sock1 "1 / 2" "1 / 2" empty_state
          "[(''a1b2c3d4'', [], sock1, 1 / 2, 1 / 2), (''e5f6a7b8'', ''Bob'', sock2, 1 / 2, 1 / 2)]" 1]
  have "(\<exists>p. map_of (players (new_state (handleJoin ''a1b2c3d4'' [] sock1 (1 / 2) (1 / 2) empty_state)))
             ''a1b2c3d4'' = Some p
          \<and> faction p = FACTIONS ! (length (players empty_state) mod 6)
          \<and> name p = ''Warrior_'' @ take 4 ''a1b2c3d4'')
   \<and> map_option faction
        (map_of (players (join_all [(''a1b2c3d4'', [], sock1, 1 / 2, 1 / 2),
                                    (''e5f6a7b8'', ''Bob'', sock2, 1 / 2, 1 / 2)] empty_state))
           ''e5f6a7b8'')
      = Some ''Vaegirs''"
    by (simp add: FACTIONS_def)
  ultimately show ?thesis by simp
qed

section \<open>Redaction of player records\<close>

text \<open>
  Every message leaves through \<open>send\<close>, directly or from \<open>broadcast\<close>, and both pass the
  message on as it is. So the question is which messages the handlers build.
\<close>

lemma send_message: "(w', m') \<in> set (send w m) \<Longrightarrow> m' = m"
  by (auto simp: send_def split: if_splits)

lemma send_bang_message: "send_bang wo m = Some out \<Longrightarrow> (w', m') \<in> set out \<Longrightarrow> m' = m"
  by (auto simp: send_bang_def dest: send_message split: option.splits)

lemma broadcast_message: "(w', m') \<in> set (broadcast st m ex) \<Longrightarrow> m' = m"
  by (auto simp: broadcast_def dest: send_message split: option.splits if_splits)

lemma redacted_Nil: "redacted st []"
  by (simp add: redacted_def)

lemma redacted_append: "redacted st (a @ b) \<longleftrightarrow> redacted st a \<and> redacted st b"
  by (simp add: redacted_def ball_Un)

lemma redacted_send:
  assumes "\<forall>p \<in> set (players_in m). redacted_copy st p"
  shows "redacted st (send w m)"
  using assms unfolding redacted_def by (auto dest!: send_message)

lemma redacted_send_bang:
  assumes "\<forall>p \<in> set (players_in m). redacted_copy st p"
    and "send_bang wo m = Some out"
  shows "redacted st out"
  using assms unfolding redacted_def by (auto dest!: send_bang_message)

lemma redacted_broadcast:
  assumes "\<forall>p \<in> set (players_in m). redacted_copy st p"
  shows "redacted st (broadcast st' m ex)"
  using assms unfolding redacted_def by (auto dest!: broadcast_message)

lemma update_member: "(k, v) \<in> set (AList.update k v al)"
  by (induction al) auto

lemma sanitized_is_redacted_copy:
  assumes "(k, q) \<in> set (players st)"
  shows "redacted_copy st (sanitizePlayer q)"
proof -
  have "q \<in> snd ` set (players st)" using assms by force
  then show ?thesis by (auto simp: redacted_copy_def sanitizePlayer_def)
qed

lemma redacted_handleJoin:
  "redacted (new_state (handleJoin playerId nm w r1 r2 st)) (sent (handleJoin playerId nm w r1 r2 st))"
proof -
  define player where "player =
       \<lparr>player_id = playerId,
        name = (if nm = [] then ''Warrior_'' @ take 4 playerId else nm),
        faction = FACTIONS ! (length (players st) mod length FACTIONS),
        position = \<lparr>pos_x = jadd (Fin 20) (jmul (Fin r1) (Fin 60)),
                    pos_y = jadd (Fin 20) (jmul (Fin r2) (Fin 60))\<rparr>,
        gold = Fin 1000,
        army = [\<lparr>unit_type = ''infantry'', count = Fin 20, level = Fin 1\<rparr>,
                \<lparr>unit_type = ''archer'', count = Fin 10, level = Fin 1\<rparr>],
        color = FACTION_COLORS ! (length (players st) mod length FACTIONS),
        ws = Some w\<rparr>"
  define st' where "st' = st\<lparr>players := AList.update playerId player (players st)\<rparr>"
  have run: "handleJoin playerId nm w r1 r2 st =
      done_with st'
        (send w (Init playerId (sanitizePlayer player)
                   (map (\<lambda>(k, p). sanitizePlayer p) (players st')) (territories st'))
         @ broadcast st' (PlayerJoined (sanitizePlayer player)) (Some playerId))"
    unfolding handleJoin_def Let_def player_def st'_def by (rule refl)
  have "(playerId, player) \<in> set (players st')"
    by (simp add: st'_def update_member)
  then have new: "redacted_copy st' (sanitizePlayer player)"
    by (rule sanitized_is_redacted_copy)
  have all: "\<forall>p \<in> set (map (\<lambda>(k, p). sanitizePlayer p) (players st')). redacted_copy st' p"
    by (auto intro: sanitized_is_redacted_copy)
  show ?thesis
    using new all
    by (simp add: run done_with_def redacted_append redacted_send redacted_broadcast)
qed

lemma redacted_handleMove:
  "redacted (new_state (handleMove playerId mx my st)) (sent (handleMove playerId mx my st))"
  by (simp add: handleMove_def done_with_def Let_def redacted_Nil redacted_broadcast
      split: option.splits prod.splits)

lemma redacted_handleRecruit:
  "redacted (new_state (handleRecruit playerId unitType n st)) (sent (handleRecruit playerId unitType n st))"
proof -
  have "redacted (st\<lparr>players := AList.update playerId p (players st)\<rparr>) out"
    if "send_bang wo (Recruited (sanitizePlayer p)) = Some out" for p wo out
  proof (rule redacted_send_bang [OF _ that])
    have "(playerId, p) \<in> set (players (st\<lparr>players := AList.update playerId p (players st)\<rparr>))"
      by (simp add: update_member)
    then show "\<forall>q \<in> set (players_in (Recruited (sanitizePlayer p))).
                 redacted_copy (st\<lparr>players := AList.update playerId p (players st)\<rparr>) q"
      by (simp add: sanitized_is_redacted_copy)
  qed
  moreover have "redacted st out" if "send_bang wo (ErrorMsg e) = Some out" for wo e out
    by (rule redacted_send_bang [OF _ that]) simp
  ultimately show ?thesis
    by (simp add: handleRecruit_def done_with_def thrown_with_def Let_def redacted_Nil
        split: option.splits)
qed

lemma redacted_handleAttack:
  "redacted (new_state (handleAttack playerId targetId r1 r2 st)) (sent (handleAttack playerId targetId r1 r2 st))"
proof -
  have err: "redacted s out" if "send_bang wo (ErrorMsg e) = Some out" for wo e out s
    by (rule redacted_send_bang [OF _ that]) simp
  have res: "redacted s out" if "send_bang wo (BattleResult b role) = Some out" for wo b role out s
    by (rule redacted_send_bang [OF _ that]) simp
  show ?thesis
    by (auto simp add: handleAttack_def done_with_def thrown_with_def Let_def redacted_Nil
        redacted_append redacted_broadcast err res split: option.splits)
qed

lemma redacted_handleChat:
  "redacted (new_state (handleChat playerId txt st)) (sent (handleChat playerId txt st))"
  by (simp add: handleChat_def done_with_def redacted_Nil redacted_broadcast split: option.splits)

lemma redacted_handleClose:
  "redacted (new_state (handleClose playerId st)) (sent (handleClose playerId st))"
  by (simp add: handleClose_def done_with_def Let_def redacted_Nil redacted_broadcast
      split: option.splits)

lemma pay_income_messages:
  "pay_income ts ps = (ps', out, t) \<Longrightarrow> redacted st out"
proof (induction ps arbitrary: ps' out t)
  case Nil
  then show ?case by (simp add: redacted_Nil)
next
  case (Cons kp ps)
  obtain k p where kp: "kp = (k, p)" by (cases kp)
  have gold_update: "redacted st o1" if "send_bang wo (GoldUpdate g) = Some o1" for wo g o1
    by (rule redacted_send_bang [OF _ that]) simp
  from Cons.prems show ?case
    by (auto simp add: kp Let_def redacted_Nil redacted_append gold_update
        split: option.splits prod.splits intro: Cons.IH)
qed

lemma redacted_game_tick:
  "redacted (new_state (game_tick st)) (sent (game_tick st))"
proof -
  define st1 where "st1 = st\<lparr>tick := tick st + 1\<rparr>"
  define res where "res = (if tick st1 mod 60 = 0 then pay_income (territories st1) (players st1)
                           else (players st1, [], False))"
  obtain ps out t where r: "res = (ps, out, t)"
    by (cases res)
  define st2 where "st2 = st1\<lparr>players := ps\<rparr>"
  have run: "game_tick st =
      (if t then thrown_with st2 out
       else if tick st2 mod 10 = 0
            then done_with st2
                   (out @ broadcast st2 (TickMsg (map (\<lambda>(k, p). sanitizePlayer p) (players st2))) None)
            else done_with st2 out)"
    unfolding game_tick_def Let_def st1_def [symmetric] res_def [symmetric] r st2_def
    by simp
  have out: "redacted st2 out"
  proof (cases "tick st1 mod 60 = 0")
    case True
    with r show ?thesis by (auto simp: res_def intro: pay_income_messages)
  next
    case False
    with r show ?thesis by (simp add: res_def redacted_Nil)
  qed
  have snap: "redacted st2 (broadcast st2 (TickMsg (map (\<lambda>(k, p). sanitizePlayer p) (players st2))) None)"
    by (rule redacted_broadcast) (auto intro: sanitized_is_redacted_copy)
  show ?thesis
    by (simp add: run done_with_def thrown_with_def redacted_append out snap)
qed

text \<open>
  C6. Whatever the inbound message, the closing connection or the tick, every player
  record in every message handed to a socket (in \<open>init\<close>, \<open>player_joined\<close>, \<open>recruited\<close>
  and the \<open>tick\<close> snapshot; the other kinds carry no player record) equals a player of
  the state the handler leaves behind with the \<open>ws\<close> field removed: the connection
  handle is absent and all other fields are that player's.
\<close>

theorem wire_players_are_redacted:
  "redacted (new_state (handleMessage playerId msg w r1 r2 st)) (sent (handleMessage playerId msg w r1 r2 st))
   \<and> redacted (new_state (handleClose playerId st)) (sent (handleClose playerId st))
   \<and> redacted (new_state (game_tick st)) (sent (game_tick st))"
proof -
  have "redacted (new_state (handleMessage playerId msg w r1 r2 st))
          (sent (handleMessage playerId msg w r1 r2 st))"
    by (cases msg)
      (simp_all add: handleMessage_def redacted_handleJoin redacted_handleMove redacted_handleRecruit
        redacted_handleAttack redacted_handleChat done_with_def redacted_Nil)
  then show ?thesis
    by (simp add: redacted_handleClose redacted_game_tick)
qed

theorem wire_players_are_redacted_witness:
  "sent (handleMessage ''e5f6a7b8'' (Join ''Bob'') sock2 (1 / 2) (1 / 2) one_player)
     = [(sock2, Init ''e5f6a7b8'' (second_player\<lparr>ws := None\<rparr>)
                  [first_player\<lparr>ws := None\<rparr>, second_player\<lparr>ws := None\<rparr>] []),
        (sock1, PlayerJoined (second_player\<lparr>ws := None\<rparr>))]
   \<and> new_state (handleMessage ''e5f6a7b8'' (Join ''Bob'') sock2 (1 / 2) (1 / 2) one_player) = two_players
   \<and> redacted_copy two_players (first_player\<lparr>ws := None\<rparr>)
   \<and> redacted_copy two_players (second_player\<lparr>ws := None\<rparr>)
   \<and> ws first_player = Some sock1 \<and> ws second_player = Some sock2"
proof -
  have n: "new_state (handleMessage ''e5f6a7b8'' (Join ''Bob'') sock2 (1 / 2) (1 / 2) one_player) = two_players"
    by (simp add: handleMessage_def two_players_def)
  have s: "sent (handleMessage ''e5f6a7b8'' (Join ''Bob'') sock2 (1 / 2) (1 / 2) one_player)
     = [(sock2, Init ''e5f6a7b8'' (second_player\<lparr>ws := None\<rparr>)
                  [first_player\<lparr>ws := None\<rparr>, second_player\<lparr>ws := None\<rparr>] []),
        (sock1, PlayerJoined (second_player\<lparr>ws := None\<rparr>))]"
    by (simp add: handleMessage_def handleJoin_def one_player_players one_player_territories
        first_player_def second_player_def FACTIONS_def FACTION_COLORS_def Let_def delivery_defs)
  from wire_players_are_redacted [of "''e5f6a7b8''" "Join ''Bob''" sock2 "1 / 2" "1 / 2" one_player]
  have "redacted two_players
          [(sock2, Init ''e5f6a7b8'' (second_player\<lparr>ws := None\<rparr>)
                     [first_player\<lparr>ws := None\<rparr>, second_player\<lparr>ws := None\<rparr>] []),
           (sock1, PlayerJoined (second_player\<lparr>ws := None\<rparr>))]"
    by (simp add: n s)
  then show ?thesis
    by (simp add: n s redacted_def redacted_copy_def first_player_def second_player_def)
qed

end
